theory Spec2Isabelle
  imports Main
begin

section \<open>Python values, dictionaries and exceptions\<close>

text \<open>
  The wrapper \<^verbatim>\<open>class_S3.py\<close> builds dictionary literals, hands them to the boto3 client and
  returns \<^verbatim>\<open>None\<close>, booleans or lists of strings. A dictionary with string keys is an association
  list read with \<open>map_of\<close>; the values that travel through the wrapper are \<open>pyval\<close>.
\<close>

type_synonym 'a dict = "(string \<times> 'a) list"

datatype pyval =
    PNone
  | PBool bool
  | PInt int
  | PStr string
  | PList "pyval list"
  | PDict "(string \<times> pyval) list"

text \<open>
  Exceptions, restricted to the subclasses of Python's \<^verbatim>\<open>Exception\<close>, which is what a call into
  the client library raises. \<open>ClientError\<close> is botocore's exception for an error response of the
  service and carries that response (\<^verbatim>\<open>e.response\<close>, a dictionary);
  \<open>KeyError\<close> is raised by subscripting a dictionary with a key it does not have;
  \<open>TypeError\<close> is raised by subscripting with a string, or iterating over, a value that does
  not support it;
  \<open>OtherException\<close> stands for every other class, named by its class name (for example
  botocore's \<^verbatim>\<open>EndpointConnectionError\<close> and \<^verbatim>\<open>ParamValidationError\<close>, or boto3's
  \<^verbatim>\<open>S3UploadFailedError\<close>), none of which derives from \<open>ClientError\<close>.
\<close>

datatype exn =
    ClientError "pyval dict"
  | KeyError string
  | TypeError
  | OtherException string

text \<open>Subscripting \<^verbatim>\<open>d[k]\<close>: the value stored under \<open>k\<close>, or \<open>KeyError\<close>.\<close>

definition getitem :: "'a dict \<Rightarrow> string \<Rightarrow> exn + 'a" where
  "getitem d k = (case map_of d k of None \<Rightarrow> Inl (KeyError k) | Some v \<Rightarrow> Inr v)"

text \<open>
  \<^verbatim>\<open>v[k]\<close> with a string \<open>k\<close> on any value: only a dictionary can be subscripted with a string.
\<close>

fun subscript :: "pyval \<Rightarrow> string \<Rightarrow> exn + pyval" where
  "subscript (PDict d) k = getitem d k"
| "subscript _ k = Inl TypeError"

text \<open>
  \<^verbatim>\<open>for x in v\<close>: the elements of a list, the keys of a dictionary, the characters of a
  string; no other value is iterable.
\<close>

fun iterate :: "pyval \<Rightarrow> exn + pyval list" where
  "iterate (PList xs) = Inr xs"
| "iterate (PDict d) = Inr (map (\<lambda>kv. PStr (fst kv)) d)"
| "iterate (PStr s) = Inr (map (\<lambda>c. PStr [c]) s)"
| "iterate _ = Inl TypeError"

text \<open>Reading an entry of a dictionary value; \<open>None\<close> on a missing key and on a non-dictionary.\<close>

fun field :: "pyval \<Rightarrow> string \<Rightarrow> pyval option" where
  "field (PDict d) k = map_of d k"
| "field _ k = None"

section \<open>The client instance and the external capability\<close>

text \<open>
  \<^verbatim>\<open>__init__\<close> stores the bucket name and the client built by \<^verbatim>\<open>boto3.client\<close>. The client
  is represented by the arguments it was configured with.
\<close>

record handle =
  service_name :: string
  endpoint_url :: string
  aws_access_key_id :: string
  aws_secret_access_key :: string
  signature_version :: string
  region_name :: string

record S3Client =
  bucket :: string
  s3 :: handle

definition init :: "string \<Rightarrow> string \<Rightarrow> string \<Rightarrow> string \<Rightarrow> S3Client" where
  "init endpoint access_key secret_key bucket_name =
     \<lparr> bucket = bucket_name,
       s3 = \<lparr> service_name = ''s3'',
              endpoint_url = endpoint,
              aws_access_key_id = access_key,
              aws_secret_access_key = secret_key,
              signature_version = ''s3v4'',
              region_name = ''us-east-1'' \<rparr> \<rparr>"

text \<open>
  The seven client methods the wrapper calls, with their arguments in the order the source
  passes them.
\<close>

datatype request =
    PutBucketPolicy string string
  | PutBucketVersioning string pyval
  | PutBucketLifecycleConfiguration string pyval
  | UploadFile string string string
  | DownloadFile string string string
  | ListObjectsV2 string
  | HeadObject string string

text \<open>A response of the client is a dictionary.\<close>

type_synonym response = "pyval dict"

text \<open>
  The storage service and the client library are outside the repository: their behaviour is a
  parameter. The outcome of a request may depend on the configured client and on every request
  issued before it.
\<close>

type_synonym capability = "handle \<Rightarrow> request list \<Rightarrow> request \<Rightarrow> exn + response"

text \<open>
  The lines the wrapper prints, one constructor for each \<^verbatim>\<open>print\<close> statement of the source
  with the values interpolated into it:
  \<^item> \<open>PolicyUpdated\<close>: line 74;
  \<^item> \<open>VersioningEnabled bucket\<close>: line 84;
  \<^item> \<open>BucketNotFound bucket\<close>: line 89;
  \<^item> \<open>AccessDenied bucket\<close>: line 91;
  \<^item> \<open>VersioningError error_code\<close>: line 93;
  \<^item> \<open>LifecycleConfigured\<close>: line 114;
  \<^item> \<open>LifecycleExpiry bucket expiration_days\<close>: line 115;
  \<^item> \<open>LifecycleError e\<close>: line 119;
  \<^item> \<open>Uploaded object_name\<close>: line 130;
  \<^item> \<open>Downloaded object_name\<close>: line 137.
\<close>

datatype report =
    PolicyUpdated
  | VersioningEnabled string
  | BucketNotFound string
  | AccessDenied string
  | VersioningError pyval
  | LifecycleConfigured
  | LifecycleExpiry string pyval
  | LifecycleError exn
  | Uploaded string
  | Downloaded string

text \<open>
  What a method can read and change: the instance, the requests issued so far (oldest first)
  and the lines written to standard output so far.
\<close>

record state =
  self :: S3Client
  sent :: "request list"
  stdout :: "report list"

definition call :: "capability \<Rightarrow> request \<Rightarrow> state \<Rightarrow> (exn + response) \<times> state" where
  "call cap r st = (cap (s3 (self st)) (sent st) r, st\<lparr>sent := sent st @ [r]\<rparr>)"

text \<open>
  Standard output belongs to the process, not to the wrapper: \<^verbatim>\<open>print\<close> raises when the
  stream cannot take the line (\<^verbatim>\<open>UnicodeEncodeError\<close> on a stream whose encoding lacks a
  character of it, \<^verbatim>\<open>OSError\<close> on a closed one). A console says, from the lines already
  written and the next one, whether the line is written (\<open>None\<close>) or which exception is raised.
\<close>

type_synonym console = "report list \<Rightarrow> report \<Rightarrow> exn option"

definition py_print :: "console \<Rightarrow> report \<Rightarrow> state \<Rightarrow> (exn + unit) \<times> state" where
  "py_print con line st =
     (case con (stdout st) line of
        Some e \<Rightarrow> (Inl e, st)
      | None \<Rightarrow> (Inr (), st\<lparr>stdout := stdout st @ [line]\<rparr>))"

section \<open>The methods of S3Client\<close>

text \<open>
  Every method returns the value or the exception the caller receives, and the state after it.
  A method without a \<^verbatim>\<open>return\<close> statement returns \<open>PNone\<close>. Where the source has
  \<^verbatim>\<open>try\<close> and \<^verbatim>\<open>except\<close>, the body of each is a definition of its own: an exception
  raised in the body of \<^verbatim>\<open>try\<close> goes to the handler when the handler's class matches, and an
  exception raised in the handler goes to the caller.
\<close>

subsection \<open>set_bucket_policy\<close>

definition policy :: "string \<Rightarrow> pyval" where
  "policy b =
     PDict [
       (''Version'', PStr ''2012-10-17''),
       (''Statement'', PList [
          PDict [
            (''Sid'', PStr ''PublicRead''),
            (''Effect'', PStr ''Allow''),
            (''Principal'', PStr ''*''),
            (''Action'', PStr ''s3:GetObject''),
            (''Resource'', PStr (''arn:aws:s3:::'' @ b @ ''/*''))],
          PDict [
            (''Sid'', PStr ''FullAccessForUserM''),
            (''Effect'', PStr ''Allow''),
            (''Principal'', PDict [(''AWS'', PStr ''user_m'')]),
            (''Action'', PStr ''s3:*''),
            (''Resource'', PList [
               PStr (''arn:aws:s3:::'' @ b),
               PStr (''arn:aws:s3:::'' @ b @ ''/*'')])],
          PDict [
            (''Sid'', PStr ''ReadOnlyForUserB''),
            (''Effect'', PStr ''Allow''),
            (''Principal'', PDict [(''AWS'', PStr ''user_b'')]),
            (''Action'', PList [PStr ''s3:GetObject'', PStr ''s3:ListBucket'']),
            (''Resource'', PList [
               PStr (''arn:aws:s3:::'' @ b),
               PStr (''arn:aws:s3:::'' @ b @ ''/*'')])]])]"

text \<open>
  \<^verbatim>\<open>json.dumps\<close> belongs to the standard library; the serialiser is the parameter \<open>dumps\<close>.
\<close>

definition set_bucket_policy ::
  "(pyval \<Rightarrow> string) \<Rightarrow> console \<Rightarrow> capability \<Rightarrow> state \<Rightarrow> (exn + pyval) \<times> state" where
  "set_bucket_policy dumps con cap st =
     (case call cap (PutBucketPolicy (bucket (self st)) (dumps (policy (bucket (self st))))) st of
        (Inl e, st1) \<Rightarrow> (Inl e, st1)
      | (Inr _, st1) \<Rightarrow>
          (case py_print con PolicyUpdated st1 of
             (Inl e, st2) \<Rightarrow> (Inl e, st2)
           | (Inr _, st2) \<Rightarrow> (Inr PNone, st2)))"

subsection \<open>enable_bucket_versioning\<close>

text \<open>Lines 80 to 85, the body of \<^verbatim>\<open>try\<close>.\<close>

definition enable_bucket_versioning_try ::
  "console \<Rightarrow> capability \<Rightarrow> state \<Rightarrow> (exn + pyval) \<times> state" where
  "enable_bucket_versioning_try con cap st =
     (case call cap (PutBucketVersioning (bucket (self st))
                       (PDict [(''Status'', PStr ''Enabled'')])) st of
        (Inl e, st1) \<Rightarrow> (Inl e, st1)
      | (Inr _, st1) \<Rightarrow>
          (case py_print con (VersioningEnabled (bucket (self st1))) st1 of
             (Inl e, st2) \<Rightarrow> (Inl e, st2)
           | (Inr _, st2) \<Rightarrow> (Inr (PBool True), st2)))"

text \<open>Lines 87 to 94, the handler, for a \<open>ClientError\<close> with the response \<open>eresp\<close>.\<close>

definition enable_bucket_versioning_except ::
  "console \<Rightarrow> pyval dict \<Rightarrow> state \<Rightarrow> (exn + pyval) \<times> state" where
  "enable_bucket_versioning_except con eresp st =
     (case getitem eresp ''Error'' of
        Inl e \<Rightarrow> (Inl e, st)
      | Inr err \<Rightarrow>
          (case subscript err ''Code'' of
             Inl e \<Rightarrow> (Inl e, st)
           | Inr error_code \<Rightarrow>
               (case (if error_code = PStr ''NoSuchBucket''
                        then py_print con (BucketNotFound (bucket (self st))) st
                      else if error_code = PStr ''AccessDenied''
                        then py_print con (AccessDenied (bucket (self st))) st
                      else py_print con (VersioningError error_code) st) of
                  (Inl e, st1) \<Rightarrow> (Inl e, st1)
                | (Inr _, st1) \<Rightarrow> (Inr (PBool False), st1))))"

definition enable_bucket_versioning ::
  "console \<Rightarrow> capability \<Rightarrow> state \<Rightarrow> (exn + pyval) \<times> state" where
  "enable_bucket_versioning con cap st =
     (case enable_bucket_versioning_try con cap st of
        (Inr v, st1) \<Rightarrow> (Inr v, st1)
      | (Inl (ClientError eresp), st1) \<Rightarrow> enable_bucket_versioning_except con eresp st1
      | (Inl e, st1) \<Rightarrow> (Inl e, st1))"

subsection \<open>set_bucket_lifecycle_policy\<close>

definition lifecycle_config :: "pyval \<Rightarrow> pyval" where
  "lifecycle_config expiration_days =
     PDict [
       (''Rules'', PList [
          PDict [
            (''Status'', PStr ''Enabled''),
            (''Filter'', PDict [(''Prefix'', PStr '''')]),
            (''Expiration'', PDict [(''Days'', expiration_days)])]])]"

text \<open>Lines 110 to 116, the body of \<^verbatim>\<open>try\<close>.\<close>

definition set_bucket_lifecycle_policy_try ::
  "console \<Rightarrow> capability \<Rightarrow> pyval \<Rightarrow> state \<Rightarrow> (exn + pyval) \<times> state" where
  "set_bucket_lifecycle_policy_try con cap expiration_days st =
     (case call cap (PutBucketLifecycleConfiguration (bucket (self st))
                       (lifecycle_config expiration_days)) st of
        (Inl e, st1) \<Rightarrow> (Inl e, st1)
      | (Inr _, st1) \<Rightarrow>
          (case py_print con LifecycleConfigured st1 of
             (Inl e, st2) \<Rightarrow> (Inl e, st2)
           | (Inr _, st2) \<Rightarrow>
               (case py_print con (LifecycleExpiry (bucket (self st2)) expiration_days) st2 of
                  (Inl e, st3) \<Rightarrow> (Inl e, st3)
                | (Inr _, st3) \<Rightarrow> (Inr (PBool True), st3))))"

text \<open>Lines 119 and 120, the handler, for the exception \<open>e\<close>.\<close>

definition set_bucket_lifecycle_policy_except ::
  "console \<Rightarrow> exn \<Rightarrow> state \<Rightarrow> (exn + pyval) \<times> state" where
  "set_bucket_lifecycle_policy_except con e st =
     (case py_print con (LifecycleError e) st of
        (Inl e', st1) \<Rightarrow> (Inl e', st1)
      | (Inr _, st1) \<Rightarrow> (Inr (PBool False), st1))"

text \<open>
  The argument is optional: \<open>None\<close> is a call that omits it, and the default of the signature
  applies.
\<close>

definition set_bucket_lifecycle_policy ::
  "console \<Rightarrow> capability \<Rightarrow> pyval option \<Rightarrow> state \<Rightarrow> (exn + pyval) \<times> state" where
  "set_bucket_lifecycle_policy con cap arg st =
     (let expiration_days = (case arg of None \<Rightarrow> PInt 3 | Some v \<Rightarrow> v) in
      case set_bucket_lifecycle_policy_try con cap expiration_days st of
        (Inr v, st1) \<Rightarrow> (Inr v, st1)
      | (Inl e, st1) \<Rightarrow> set_bucket_lifecycle_policy_except con e st1)"

subsection \<open>upload and download\<close>

definition upload ::
  "console \<Rightarrow> capability \<Rightarrow> string \<Rightarrow> string \<Rightarrow> state \<Rightarrow> (exn + pyval) \<times> state" where
  "upload con cap file_path object_name st =
     (case call cap (UploadFile file_path (bucket (self st)) object_name) st of
        (Inl e, st1) \<Rightarrow> (Inl e, st1)
      | (Inr _, st1) \<Rightarrow>
          (case py_print con (Uploaded object_name) st1 of
             (Inl e, st2) \<Rightarrow> (Inl e, st2)
           | (Inr _, st2) \<Rightarrow> (Inr PNone, st2)))"

definition download ::
  "console \<Rightarrow> capability \<Rightarrow> string \<Rightarrow> string \<Rightarrow> state \<Rightarrow> (exn + pyval) \<times> state" where
  "download con cap object_name save_path st =
     (case call cap (DownloadFile (bucket (self st)) object_name save_path) st of
        (Inl e, st1) \<Rightarrow> (Inl e, st1)
      | (Inr _, st1) \<Rightarrow>
          (case py_print con (Downloaded object_name) st1 of
             (Inl e, st2) \<Rightarrow> (Inl e, st2)
           | (Inr _, st2) \<Rightarrow> (Inr PNone, st2)))"

subsection \<open>list_files\<close>

text \<open>
  The body of the comprehension \<^verbatim>\<open>[obj["Key"] for obj in ...]\<close>, entry after entry: it stops
  at the first entry that has no key.
\<close>

fun keys_of :: "pyval list \<Rightarrow> exn + pyval list" where
  "keys_of [] = Inr []"
| "keys_of (obj # objs) =
     (case subscript obj ''Key'' of
        Inl e \<Rightarrow> Inl e
      | Inr k \<Rightarrow> (case keys_of objs of Inl e \<Rightarrow> Inl e | Inr ks \<Rightarrow> Inr (k # ks)))"

definition list_files :: "capability \<Rightarrow> state \<Rightarrow> (exn + pyval) \<times> state" where
  "list_files cap st =
     (case call cap (ListObjectsV2 (bucket (self st))) st of
        (Inl e, st1) \<Rightarrow> (Inl e, st1)
      | (Inr response, st1) \<Rightarrow>
          (if map_of response ''Contents'' = None then (Inr (PList []), st1)
           else (case getitem response ''Contents'' of
                   Inl e \<Rightarrow> (Inl e, st1)
                 | Inr contents \<Rightarrow>
                     (case iterate contents of
                        Inl e \<Rightarrow> (Inl e, st1)
                      | Inr objs \<Rightarrow>
                          (case keys_of objs of
                             Inl e \<Rightarrow> (Inl e, st1)
                           | Inr ks \<Rightarrow> (Inr (PList ks), st1))))))"

subsection \<open>file_exists\<close>

definition file_exists :: "capability \<Rightarrow> string \<Rightarrow> state \<Rightarrow> (exn + pyval) \<times> state" where
  "file_exists cap object_name st =
     (case call cap (HeadObject (bucket (self st)) object_name) st of
        (Inr _, st1) \<Rightarrow> (Inr (PBool True), st1)
      | (Inl (ClientError _), st1) \<Rightarrow> (Inr (PBool False), st1)
      | (Inl e, st1) \<Rightarrow> (Inl e, st1))"

section \<open>Callers\<close>

text \<open>
  A caller picks one of the seven methods with its arguments. A caller that handles exceptions
  can go on using the instance after a method has raised, so a sequence of invocations runs to
  its end whatever each one returns.
\<close>

datatype operation =
    SetBucketPolicy
  | EnableBucketVersioning
  | SetBucketLifecyclePolicy "pyval option"
  | Upload string string
  | Download string string
  | ListFiles
  | FileExists string

fun invoke ::
  "(pyval \<Rightarrow> string) \<Rightarrow> console \<Rightarrow> capability \<Rightarrow> operation \<Rightarrow> state
     \<Rightarrow> (exn + pyval) \<times> state" where
  "invoke dumps con cap SetBucketPolicy st = set_bucket_policy dumps con cap st"
| "invoke dumps con cap EnableBucketVersioning st = enable_bucket_versioning con cap st"
| "invoke dumps con cap (SetBucketLifecyclePolicy arg) st =
     set_bucket_lifecycle_policy con cap arg st"
| "invoke dumps con cap (Upload file_path object_name) st =
     upload con cap file_path object_name st"
| "invoke dumps con cap (Download object_name save_path) st =
     download con cap object_name save_path st"
| "invoke dumps con cap ListFiles st = list_files cap st"
| "invoke dumps con cap (FileExists object_name) st = file_exists cap object_name st"

fun invoke_all ::
  "(pyval \<Rightarrow> string) \<Rightarrow> console \<Rightarrow> capability \<Rightarrow> operation list \<Rightarrow> state \<Rightarrow> state" where
  "invoke_all dumps con cap [] st = st"
| "invoke_all dumps con cap (m # ms) st =
     invoke_all dumps con cap ms (snd (invoke dumps con cap m st))"

section \<open>Vocabulary of the statements\<close>

text \<open>What the capability answers to request \<open>r\<close> when it is issued in state \<open>st\<close>.\<close>

definition outcome :: "capability \<Rightarrow> state \<Rightarrow> request \<Rightarrow> exn + response" where
  "outcome cap st r = cap (s3 (self st)) (sent st) r"

text \<open>Reading a nested entry of a dictionary value, key after key.\<close>

fun at_path :: "pyval \<Rightarrow> string list \<Rightarrow> pyval option" where
  "at_path v [] = Some v"
| "at_path v (k # ks) = (case field v k of None \<Rightarrow> None | Some w \<Rightarrow> at_path w ks)"

section \<open>Concrete environments\<close>

text \<open>
  A client for a local MinIO server and the state of a program that has just constructed it.
\<close>

definition minio :: S3Client where
  "minio = init ''http://localhost:9000'' ''minioadmin'' ''minioadmin'' ''bucketmaks''"

definition fresh :: state where
  "fresh = \<lparr> self = minio, sent = [], stdout = [] \<rparr>"

text \<open>A standard output with the UTF-8 encoding: every line is written.\<close>

definition utf8 :: console where
  "utf8 written line = None"

text \<open>
  A standard output with the ASCII encoding. Each of the ten \<^verbatim>\<open>print\<close> statements of the
  source has Cyrillic text or an emoji in its literal, so none of the lines can be encoded.
\<close>

definition ascii_only :: console where
  "ascii_only written line = Some (OtherException ''UnicodeEncodeError'')"

text \<open>A service that accepts every request and has no objects.\<close>

definition accepting :: capability where
  "accepting h history r = Inr []"

text \<open>A service that answers every request with the error response of the given code.\<close>

definition error_response :: "string \<Rightarrow> pyval dict" where
  "error_response code =
     [(''Error'', PDict [(''Code'', PStr code), (''Message'', PStr ''rejected'')]),
      (''ResponseMetadata'', PDict [(''RetryAttempts'', PInt 0)])]"

definition rejecting :: "string \<Rightarrow> capability" where
  "rejecting code h history r = Inl (ClientError (error_response code))"

text \<open>An endpoint nobody listens on: the client library raises before any response exists.\<close>

definition unreachable :: capability where
  "unreachable h history r = Inl (OtherException ''EndpointConnectionError'')"

text \<open>
  A service holding more objects than one page of a listing: every listing answers with the
  first two and says that the listing is truncated.
\<close>

definition first_page :: response where
  "first_page =
     [(''IsTruncated'', PBool True),
      (''Contents'', PList [
         PDict [(''Key'', PStr ''sales_data.csv''), (''Size'', PInt 120)],
         PDict [(''Key'', PStr ''report.txt''), (''Size'', PInt 7)]]),
      (''NextContinuationToken'', PStr ''t1'')]"

definition truncating :: capability where
  "truncating h history r = Inr first_page"

text \<open>
  A stand-in for the serialiser, enough to run \<open>set_bucket_policy\<close> on a concrete input: it
  writes the version of the document only.
\<close>

definition stub_dumps :: "pyval \<Rightarrow> string" where
  "stub_dumps v = (case field v ''Version'' of Some (PStr s) \<Rightarrow> s | _ \<Rightarrow> [])"


section \<open>Shared facts\<close>

lemma call_eq: "call cap r st = (outcome cap st r, st\<lparr>sent := sent st @ [r]\<rparr>)"
  by (simp add: call_def outcome_def)

lemma subscript_iff: "subscript v k = Inr w \<longleftrightarrow> field v k = Some w"
  by (cases v) (auto simp: getitem_def split: option.splits)

lemma keys_of_iff:
  "keys_of objs = Inr ks \<longleftrightarrow> map (\<lambda>obj. field obj ''Key'') objs = map Some ks"
proof (induction objs arbitrary: ks)
  case Nil
  show ?case by auto
next
  case (Cons obj objs)
  show ?case
  proof (cases "subscript obj ''Key''")
    case (Inl e)
    then have "field obj ''Key'' = None"
      using subscript_iff [of obj "''Key''"] by (cases "field obj ''Key''") auto
    with Inl show ?thesis by auto
  next
    case (Inr k)
    then have k: "field obj ''Key'' = Some k"
      by (simp add: subscript_iff)
    show ?thesis
    proof (cases "keys_of objs")
      case (Inl e)
      with Inr k Cons.IH show ?thesis by auto
    next
      case tail: (Inr ks')
      with Inr k Cons.IH [of ks'] Cons.IH show ?thesis
        by (cases ks) auto
    qed
  qed
qed

subsection \<open>The body and the handler of enable_bucket_versioning\<close>

lemma enable_bucket_versioning_try_raised:
  "outcome cap st (PutBucketVersioning (bucket (self st)) (PDict [(''Status'', PStr ''Enabled'')]))
     = Inl e
   \<Longrightarrow> enable_bucket_versioning_try con cap st =
       (Inl e, st\<lparr>sent := sent st @ [PutBucketVersioning (bucket (self st))
                                        (PDict [(''Status'', PStr ''Enabled'')])]\<rparr>)"
  by (simp add: enable_bucket_versioning_try_def call_eq)

lemma enable_bucket_versioning_try_returned:
  "outcome cap st (PutBucketVersioning (bucket (self st)) (PDict [(''Status'', PStr ''Enabled'')]))
     = Inr resp
   \<Longrightarrow> con (stdout st) (VersioningEnabled (bucket (self st))) = None
   \<Longrightarrow> enable_bucket_versioning_try con cap st =
       (Inr (PBool True),
        st\<lparr>sent := sent st @ [PutBucketVersioning (bucket (self st))
                                (PDict [(''Status'', PStr ''Enabled'')])],
           stdout := stdout st @ [VersioningEnabled (bucket (self st))]\<rparr>)"
  by (simp add: enable_bucket_versioning_try_def call_eq py_print_def)

lemma enable_bucket_versioning_except_classified:
  assumes "map_of eresp ''Error'' = Some err" and "field err ''Code'' = Some code"
    and "con (stdout st)
           (if code = PStr ''NoSuchBucket'' then BucketNotFound (bucket (self st))
            else if code = PStr ''AccessDenied'' then AccessDenied (bucket (self st))
            else VersioningError code) = None"
  shows "enable_bucket_versioning_except con eresp st =
       (Inr (PBool False),
        st\<lparr>stdout := stdout st @
             [if code = PStr ''NoSuchBucket'' then BucketNotFound (bucket (self st))
              else if code = PStr ''AccessDenied'' then AccessDenied (bucket (self st))
              else VersioningError code]\<rparr>)"
proof -
  from assms(2) have code: "subscript err ''Code'' = Inr code"
    by (simp add: subscript_iff)
  from assms(1) have err: "getitem eresp ''Error'' = Inr err"
    by (simp add: getitem_def)
  from assms(3) show ?thesis
    by (simp add: enable_bucket_versioning_except_def err code py_print_def split: if_splits)
qed

subsection \<open>The body and the handler of set_bucket_lifecycle_policy\<close>

lemma set_bucket_lifecycle_policy_try_sent:
  "sent (snd (set_bucket_lifecycle_policy_try con cap d st))
     = sent st @ [PutBucketLifecycleConfiguration (bucket (self st)) (lifecycle_config d)]"
  by (simp add: set_bucket_lifecycle_policy_try_def call_eq py_print_def
        split: sum.splits option.splits)

lemma set_bucket_lifecycle_policy_except_sent:
  "sent (snd (set_bucket_lifecycle_policy_except con e st)) = sent st"
  by (simp add: set_bucket_lifecycle_policy_except_def py_print_def
        split: sum.splits option.splits)

lemma set_bucket_lifecycle_policy_sent:
  "sent (snd (set_bucket_lifecycle_policy con cap arg st))
     = sent st @ [PutBucketLifecycleConfiguration (bucket (self st))
                    (lifecycle_config (case arg of None \<Rightarrow> PInt 3 | Some v \<Rightarrow> v))]"
proof -
  let ?d = "case arg of None \<Rightarrow> PInt 3 | Some v \<Rightarrow> v"
  obtain r st1 where body: "set_bucket_lifecycle_policy_try con cap ?d st = (r, st1)"
    by (cases "set_bucket_lifecycle_policy_try con cap ?d st")
  with set_bucket_lifecycle_policy_try_sent [of con cap ?d st]
  have st1: "sent st1
      = sent st @ [PutBucketLifecycleConfiguration (bucket (self st)) (lifecycle_config ?d)]"
    by simp
  show ?thesis
  proof (cases r)
    case (Inl e)
    with body st1 show ?thesis
      by (simp add: set_bucket_lifecycle_policy_def Let_def
            set_bucket_lifecycle_policy_except_sent)
  next
    case (Inr v)
    with body st1 show ?thesis
      by (simp add: set_bucket_lifecycle_policy_def Let_def)
  qed
qed

lemma set_bucket_lifecycle_policy_try_raised:
  "outcome cap st (PutBucketLifecycleConfiguration (bucket (self st)) (lifecycle_config d))
     = Inl e
   \<Longrightarrow> set_bucket_lifecycle_policy_try con cap d st =
       (Inl e, st\<lparr>sent := sent st @ [PutBucketLifecycleConfiguration (bucket (self st))
                                        (lifecycle_config d)]\<rparr>)"
  by (simp add: set_bucket_lifecycle_policy_try_def call_eq)

lemma set_bucket_lifecycle_policy_try_returned:
  "outcome cap st (PutBucketLifecycleConfiguration (bucket (self st)) (lifecycle_config d))
     = Inr resp
   \<Longrightarrow> con (stdout st) LifecycleConfigured = None
   \<Longrightarrow> con (stdout st @ [LifecycleConfigured]) (LifecycleExpiry (bucket (self st)) d) = None
   \<Longrightarrow> set_bucket_lifecycle_policy_try con cap d st =
       (Inr (PBool True),
        st\<lparr>sent := sent st @ [PutBucketLifecycleConfiguration (bucket (self st))
                                (lifecycle_config d)],
           stdout := stdout st @ [LifecycleConfigured, LifecycleExpiry (bucket (self st)) d]\<rparr>)"
  by (simp add: set_bucket_lifecycle_policy_try_def call_eq py_print_def)

lemma set_bucket_lifecycle_policy_except_reported:
  "con (stdout st) (LifecycleError e) = None
   \<Longrightarrow> set_bucket_lifecycle_policy_except con e st =
       (Inr (PBool False), st\<lparr>stdout := stdout st @ [LifecycleError e]\<rparr>)"
  by (simp add: set_bucket_lifecycle_policy_except_def py_print_def)

section \<open>Error handling\<close>

text \<open>
  Claim C1, as the code has it. \<open>enable_bucket_versioning\<close> handles \<open>ClientError\<close> only, and
  it does not handle a failure of \<^verbatim>\<open>print\<close>. When the versioning call returns and the line
  reporting it is written, the method returns \<open>True\<close>. When the call raises a \<open>ClientError\<close>
  whose response carries an error code, the method issues no second request and prints
  exactly one line, which names the bucket as not found for the code \<open>NoSuchBucket\<close>, access
  as denied for the code \<open>AccessDenied\<close> and the code itself for any other code; when that
  line is written, the method returns \<open>False\<close>. An exception of the call of any other class
  reaches the caller unchanged, with nothing printed.
\<close>

theorem enable_bucket_versioning_classifies:
  "(outcome cap st (PutBucketVersioning (bucket (self st)) (PDict [(''Status'', PStr ''Enabled'')]))
        = Inr resp
      \<and> con (stdout st) (VersioningEnabled (bucket (self st))) = None
      \<longrightarrow> enable_bucket_versioning con cap st =
          (Inr (PBool True),
           st\<lparr>sent := sent st @ [PutBucketVersioning (bucket (self st))
                                   (PDict [(''Status'', PStr ''Enabled'')])],
              stdout := stdout st @ [VersioningEnabled (bucket (self st))]\<rparr>))
   \<and> (outcome cap st (PutBucketVersioning (bucket (self st)) (PDict [(''Status'', PStr ''Enabled'')]))
        = Inl (ClientError eresp)
      \<and> map_of eresp ''Error'' = Some err \<and> field err ''Code'' = Some code
      \<and> con (stdout st)
           (if code = PStr ''NoSuchBucket'' then BucketNotFound (bucket (self st))
            else if code = PStr ''AccessDenied'' then AccessDenied (bucket (self st))
            else VersioningError code) = None
      \<longrightarrow> enable_bucket_versioning con cap st =
          (Inr (PBool False),
           st\<lparr>sent := sent st @ [PutBucketVersioning (bucket (self st))
                                   (PDict [(''Status'', PStr ''Enabled'')])],
              stdout := stdout st @
                [if code = PStr ''NoSuchBucket'' then BucketNotFound (bucket (self st))
                 else if code = PStr ''AccessDenied'' then AccessDenied (bucket (self st))
                 else VersioningError code]\<rparr>))
   \<and> (outcome cap st (PutBucketVersioning (bucket (self st)) (PDict [(''Status'', PStr ''Enabled'')]))
        = Inl e
      \<and> (\<forall>r. e \<noteq> ClientError r)
      \<longrightarrow> enable_bucket_versioning con cap st =
          (Inl e,
           st\<lparr>sent := sent st @ [PutBucketVersioning (bucket (self st))
                                   (PDict [(''Status'', PStr ''Enabled'')])]\<rparr>))"
proof (intro conjI impI)
  assume "outcome cap st (PutBucketVersioning (bucket (self st))
            (PDict [(''Status'', PStr ''Enabled'')])) = Inr resp
          \<and> con (stdout st) (VersioningEnabled (bucket (self st))) = None"
  then show "enable_bucket_versioning con cap st =
          (Inr (PBool True),
           st\<lparr>sent := sent st @ [PutBucketVersioning (bucket (self st))
                                   (PDict [(''Status'', PStr ''Enabled'')])],
              stdout := stdout st @ [VersioningEnabled (bucket (self st))]\<rparr>)"
    by (simp add: enable_bucket_versioning_def enable_bucket_versioning_try_returned)
next
  let ?st1 = "st\<lparr>sent := sent st @ [PutBucketVersioning (bucket (self st))
                                       (PDict [(''Status'', PStr ''Enabled'')])]\<rparr>"
  assume h: "outcome cap st (PutBucketVersioning (bucket (self st))
            (PDict [(''Status'', PStr ''Enabled'')])) = Inl (ClientError eresp)
      \<and> map_of eresp ''Error'' = Some err \<and> field err ''Code'' = Some code
      \<and> con (stdout st)
           (if code = PStr ''NoSuchBucket'' then BucketNotFound (bucket (self st))
            else if code = PStr ''AccessDenied'' then AccessDenied (bucket (self st))
            else VersioningError code) = None"
  then have body: "enable_bucket_versioning_try con cap st = (Inl (ClientError eresp), ?st1)"
    by (simp add: enable_bucket_versioning_try_raised)
  from h have p1: "map_of eresp ''Error'' = Some err" and p2: "field err ''Code'' = Some code"
    by simp_all
  from h have p3: "con (stdout ?st1)
           (if code = PStr ''NoSuchBucket'' then BucketNotFound (bucket (self ?st1))
            else if code = PStr ''AccessDenied'' then AccessDenied (bucket (self ?st1))
            else VersioningError code) = None"
    by (auto split: if_splits)
  have "enable_bucket_versioning_except con eresp ?st1 =
       (Inr (PBool False),
        ?st1\<lparr>stdout := stdout ?st1 @
             [if code = PStr ''NoSuchBucket'' then BucketNotFound (bucket (self ?st1))
              else if code = PStr ''AccessDenied'' then AccessDenied (bucket (self ?st1))
              else VersioningError code]\<rparr>)"
    by (rule enable_bucket_versioning_except_classified
          [where con = con and st = "?st1" and code = code and err = err and eresp = eresp,
           OF p1 p2 p3])
  with body show "enable_bucket_versioning con cap st =
          (Inr (PBool False),
           st\<lparr>sent := sent st @ [PutBucketVersioning (bucket (self st))
                                   (PDict [(''Status'', PStr ''Enabled'')])],
              stdout := stdout st @
                [if code = PStr ''NoSuchBucket'' then BucketNotFound (bucket (self st))
                 else if code = PStr ''AccessDenied'' then AccessDenied (bucket (self st))
                 else VersioningError code]\<rparr>)"
    by (simp add: enable_bucket_versioning_def)
next
  assume "outcome cap st (PutBucketVersioning (bucket (self st))
            (PDict [(''Status'', PStr ''Enabled'')])) = Inl e
      \<and> (\<forall>r. e \<noteq> ClientError r)"
  then show "enable_bucket_versioning con cap st =
          (Inl e,
           st\<lparr>sent := sent st @ [PutBucketVersioning (bucket (self st))
                                   (PDict [(''Status'', PStr ''Enabled'')])]\<rparr>)"
    by (cases e) (simp_all add: enable_bucket_versioning_def enable_bucket_versioning_try_raised)
qed

theorem enable_bucket_versioning_classifies_witness:
  "enable_bucket_versioning utf8 accepting fresh =
     (Inr (PBool True),
      fresh\<lparr>sent := [PutBucketVersioning ''bucketmaks'' (PDict [(''Status'', PStr ''Enabled'')])],
            stdout := [VersioningEnabled ''bucketmaks'']\<rparr>)
   \<and> enable_bucket_versioning utf8 (rejecting ''NoSuchBucket'') fresh =
     (Inr (PBool False),
      fresh\<lparr>sent := [PutBucketVersioning ''bucketmaks'' (PDict [(''Status'', PStr ''Enabled'')])],
            stdout := [BucketNotFound ''bucketmaks'']\<rparr>)
   \<and> enable_bucket_versioning utf8 (rejecting ''AccessDenied'') fresh =
     (Inr (PBool False),
      fresh\<lparr>sent := [PutBucketVersioning ''bucketmaks'' (PDict [(''Status'', PStr ''Enabled'')])],
            stdout := [AccessDenied ''bucketmaks'']\<rparr>)
   \<and> enable_bucket_versioning utf8 (rejecting ''InternalError'') fresh =
     (Inr (PBool False),
      fresh\<lparr>sent := [PutBucketVersioning ''bucketmaks'' (PDict [(''Status'', PStr ''Enabled'')])],
            stdout := [VersioningError (PStr ''InternalError'')]\<rparr>)
   \<and> enable_bucket_versioning utf8 unreachable fresh =
     (Inl (OtherException ''EndpointConnectionError''),
      fresh\<lparr>sent := [PutBucketVersioning ''bucketmaks''
                        (PDict [(''Status'', PStr ''Enabled'')])]\<rparr>)"
  using enable_bucket_versioning_classifies
          [where con = utf8 and cap = accepting and st = fresh and resp = "[]"]
        enable_bucket_versioning_classifies
          [where con = utf8 and cap = "rejecting ''NoSuchBucket''" and st = fresh
             and eresp = "error_response ''NoSuchBucket''"
             and err = "PDict [(''Code'', PStr ''NoSuchBucket''), (''Message'', PStr ''rejected'')]"
             and code = "PStr ''NoSuchBucket''"]
        enable_bucket_versioning_classifies
          [where con = utf8 and cap = "rejecting ''AccessDenied''" and st = fresh
             and eresp = "error_response ''AccessDenied''"
             and err = "PDict [(''Code'', PStr ''AccessDenied''), (''Message'', PStr ''rejected'')]"
             and code = "PStr ''AccessDenied''"]
        enable_bucket_versioning_classifies
          [where con = utf8 and cap = "rejecting ''InternalError''" and st = fresh
             and eresp = "error_response ''InternalError''"
             and err = "PDict [(''Code'', PStr ''InternalError''), (''Message'', PStr ''rejected'')]"
             and code = "PStr ''InternalError''"]
        enable_bucket_versioning_classifies
          [where con = utf8 and cap = unreachable and st = fresh
             and e = "OtherException ''EndpointConnectionError''"]
  by (simp add: outcome_def utf8_def accepting_def rejecting_def unreachable_def
        error_response_def fresh_def minio_def init_def)

text \<open>
  Claim C1, as the spec states it, fails. With the endpoint unreachable the versioning call
  fails with an exception that is not a \<open>ClientError\<close>, and \<open>enable_bucket_versioning\<close> raises
  it to the caller instead of returning \<open>False\<close>. And on a standard output that cannot
  encode the lines, the method raises the error of \<^verbatim>\<open>print\<close>, both when the call is refused
  because the bucket does not exist and when the call succeeds.
\<close>

theorem enable_bucket_versioning_raises:
  "outcome unreachable fresh
       (PutBucketVersioning (bucket (self fresh)) (PDict [(''Status'', PStr ''Enabled'')]))
     = Inl (OtherException ''EndpointConnectionError'')
   \<and> fst (enable_bucket_versioning utf8 unreachable fresh)
     = Inl (OtherException ''EndpointConnectionError'')
   \<and> fst (enable_bucket_versioning utf8 unreachable fresh) \<noteq> Inr (PBool False)
   \<and> stdout (snd (enable_bucket_versioning utf8 unreachable fresh)) = []
   \<and> outcome (rejecting ''NoSuchBucket'') fresh
       (PutBucketVersioning (bucket (self fresh)) (PDict [(''Status'', PStr ''Enabled'')]))
     = Inl (ClientError (error_response ''NoSuchBucket''))
   \<and> fst (enable_bucket_versioning ascii_only (rejecting ''NoSuchBucket'') fresh)
     = Inl (OtherException ''UnicodeEncodeError'')
   \<and> outcome accepting fresh
       (PutBucketVersioning (bucket (self fresh)) (PDict [(''Status'', PStr ''Enabled'')]))
     = Inr []
   \<and> fst (enable_bucket_versioning ascii_only accepting fresh)
     = Inl (OtherException ''UnicodeEncodeError'')"
  by (simp add: enable_bucket_versioning_def enable_bucket_versioning_try_def
        enable_bucket_versioning_except_def call_def py_print_def getitem_def outcome_def
        unreachable_def rejecting_def accepting_def error_response_def utf8_def ascii_only_def
        fresh_def)

text \<open>
  Claim C2, as the code has it. \<open>set_bucket_lifecycle_policy\<close> handles every exception of the
  lifecycle call, but not a failure of \<^verbatim>\<open>print\<close> in its handler. Whatever exception the
  call raises, the method prints one line reporting it and, when that line is written,
  returns \<open>False\<close>. When the call returns and the two lines reporting it are written, the
  method returns \<open>True\<close>. On a standard output that takes every line, the method never raises
  and returns \<open>True\<close> exactly when the call returns.
\<close>

theorem set_bucket_lifecycle_policy_swallows:
  "(outcome cap st (PutBucketLifecycleConfiguration (bucket (self st))
        (lifecycle_config (case arg of None \<Rightarrow> PInt 3 | Some v \<Rightarrow> v))) = Inl e
      \<and> con (stdout st) (LifecycleError e) = None
      \<longrightarrow> fst (set_bucket_lifecycle_policy con cap arg st) = Inr (PBool False)
        \<and> stdout (snd (set_bucket_lifecycle_policy con cap arg st))
            = stdout st @ [LifecycleError e])
   \<and> (outcome cap st (PutBucketLifecycleConfiguration (bucket (self st))
        (lifecycle_config (case arg of None \<Rightarrow> PInt 3 | Some v \<Rightarrow> v))) = Inr resp
      \<and> con (stdout st) LifecycleConfigured = None
      \<and> con (stdout st @ [LifecycleConfigured])
           (LifecycleExpiry (bucket (self st)) (case arg of None \<Rightarrow> PInt 3 | Some v \<Rightarrow> v)) = None
      \<longrightarrow> fst (set_bucket_lifecycle_policy con cap arg st) = Inr (PBool True))
   \<and> ((\<forall>written line. con written line = None)
      \<longrightarrow> fst (set_bucket_lifecycle_policy con cap arg st) \<noteq> Inl e'
        \<and> (fst (set_bucket_lifecycle_policy con cap arg st) = Inr (PBool True)
            \<longleftrightarrow> (\<exists>r. outcome cap st (PutBucketLifecycleConfiguration (bucket (self st))
                  (lifecycle_config (case arg of None \<Rightarrow> PInt 3 | Some v \<Rightarrow> v))) = Inr r)))"
proof -
  let ?d = "case arg of None \<Rightarrow> PInt 3 | Some v \<Rightarrow> v"
  let ?req = "PutBucketLifecycleConfiguration (bucket (self st)) (lifecycle_config ?d)"
  have failed: "fst (set_bucket_lifecycle_policy con cap arg st) = Inr (PBool False)
        \<and> stdout (snd (set_bucket_lifecycle_policy con cap arg st))
            = stdout st @ [LifecycleError x]"
    if "outcome cap st ?req = Inl x" and "con (stdout st) (LifecycleError x) = None" for x
    using that
    by (simp add: set_bucket_lifecycle_policy_def Let_def set_bucket_lifecycle_policy_try_raised
          set_bucket_lifecycle_policy_except_reported)
  have returned: "fst (set_bucket_lifecycle_policy con cap arg st) = Inr (PBool True)"
    if "outcome cap st ?req = Inr r" and "con (stdout st) LifecycleConfigured = None"
      and "con (stdout st @ [LifecycleConfigured]) (LifecycleExpiry (bucket (self st)) ?d) = None"
    for r
    using that
    by (simp add: set_bucket_lifecycle_policy_def Let_def
          set_bucket_lifecycle_policy_try_returned)
  have total: "fst (set_bucket_lifecycle_policy con cap arg st) \<noteq> Inl e'
        \<and> (fst (set_bucket_lifecycle_policy con cap arg st) = Inr (PBool True)
            \<longleftrightarrow> (\<exists>r. outcome cap st ?req = Inr r))"
    if all: "\<forall>written line. con written line = None"
  proof (cases "outcome cap st ?req")
    case (Inl x)
    with failed [of x] all show ?thesis by simp
  next
    case (Inr r)
    with returned [of r] all show ?thesis by simp
  qed
  from failed [of e] returned [of resp] total show ?thesis by blast
qed

theorem set_bucket_lifecycle_policy_swallows_witness:
  "fst (set_bucket_lifecycle_policy utf8 unreachable None fresh) = Inr (PBool False)
   \<and> stdout (snd (set_bucket_lifecycle_policy utf8 unreachable None fresh))
       = [LifecycleError (OtherException ''EndpointConnectionError'')]
   \<and> fst (set_bucket_lifecycle_policy utf8 (rejecting ''AccessDenied'') (Some (PInt 7)) fresh)
       = Inr (PBool False)
   \<and> fst (set_bucket_lifecycle_policy utf8 accepting None fresh) = Inr (PBool True)"
  using set_bucket_lifecycle_policy_swallows
          [where con = utf8 and cap = unreachable and st = fresh and arg = None
             and e = "OtherException ''EndpointConnectionError''"]
        set_bucket_lifecycle_policy_swallows
          [where con = utf8 and cap = "rejecting ''AccessDenied''" and st = fresh
             and arg = "Some (PInt 7)" and e = "ClientError (error_response ''AccessDenied'')"]
        set_bucket_lifecycle_policy_swallows
          [where con = utf8 and cap = accepting and st = fresh and arg = None and resp = "[]"]
  by (simp add: outcome_def utf8_def unreachable_def rejecting_def accepting_def fresh_def)

text \<open>
  Claim C2, as the spec states it, fails. On a standard output that cannot encode the lines,
  a lifecycle call that fails is caught, but the report of the handler cannot be printed and
  the method raises instead of returning \<open>False\<close>; and a lifecycle call that succeeds ends
  the same way, so the method does not return \<open>True\<close> although the call succeeded.
\<close>

theorem set_bucket_lifecycle_policy_raises:
  "outcome unreachable fresh
       (PutBucketLifecycleConfiguration (bucket (self fresh)) (lifecycle_config (PInt 3)))
     = Inl (OtherException ''EndpointConnectionError'')
   \<and> fst (set_bucket_lifecycle_policy ascii_only unreachable None fresh)
     = Inl (OtherException ''UnicodeEncodeError'')
   \<and> outcome accepting fresh
       (PutBucketLifecycleConfiguration (bucket (self fresh)) (lifecycle_config (PInt 3)))
     = Inr []
   \<and> fst (set_bucket_lifecycle_policy ascii_only accepting None fresh)
     = Inl (OtherException ''UnicodeEncodeError'')"
  by (simp add: set_bucket_lifecycle_policy_def set_bucket_lifecycle_policy_try_def
        set_bucket_lifecycle_policy_except_def call_def py_print_def outcome_def Let_def
        unreachable_def accepting_def ascii_only_def fresh_def)

text \<open>
  Claim C3, as the code has it. \<open>file_exists\<close> handles \<open>ClientError\<close> only. It returns \<open>True\<close>
  exactly when the metadata probe for the key returns; it returns \<open>False\<close> when the probe
  raises a \<open>ClientError\<close>, whatever its error code (not found and access denied alike); an
  exception of any other class, such as a network error, reaches the caller unchanged.
\<close>

theorem file_exists_probe:
  "(fst (file_exists cap object_name st) = Inr (PBool True)
      \<longleftrightarrow> (\<exists>resp. outcome cap st (HeadObject (bucket (self st)) object_name) = Inr resp))
   \<and> (outcome cap st (HeadObject (bucket (self st)) object_name) = Inl (ClientError eresp)
      \<longrightarrow> fst (file_exists cap object_name st) = Inr (PBool False))
   \<and> (outcome cap st (HeadObject (bucket (self st)) object_name) = Inl e
      \<and> (\<forall>r. e \<noteq> ClientError r)
      \<longrightarrow> fst (file_exists cap object_name st) = Inl e)"
  by (cases e) (auto simp: file_exists_def call_eq split: sum.splits exn.splits)

theorem file_exists_probe_witness:
  "fst (file_exists accepting ''sales_data.csv'' fresh) = Inr (PBool True)
   \<and> fst (file_exists (rejecting ''404'') ''sales_data.csv'' fresh) = Inr (PBool False)
   \<and> fst (file_exists (rejecting ''403'') ''sales_data.csv'' fresh) = Inr (PBool False)
   \<and> fst (file_exists unreachable ''sales_data.csv'' fresh)
       = Inl (OtherException ''EndpointConnectionError'')"
  using file_exists_probe [of accepting "''sales_data.csv''" fresh]
        file_exists_probe [of "rejecting ''404''" "''sales_data.csv''" fresh "error_response ''404''"]
        file_exists_probe [of "rejecting ''403''" "''sales_data.csv''" fresh "error_response ''403''"]
        file_exists_probe [of unreachable "''sales_data.csv''" fresh _
                             "OtherException ''EndpointConnectionError''"]
  by (simp add: outcome_def accepting_def rejecting_def unreachable_def)

text \<open>
  Claim C3, as the spec states it, fails: a network error of the probe is not turned into
  \<open>False\<close>; \<open>file_exists\<close> raises it to the caller.
\<close>

theorem file_exists_raises:
  "outcome unreachable fresh (HeadObject (bucket (self fresh)) ''sales_data.csv'')
     = Inl (OtherException ''EndpointConnectionError'')
   \<and> fst (file_exists unreachable ''sales_data.csv'' fresh)
     = Inl (OtherException ''EndpointConnectionError'')
   \<and> fst (file_exists unreachable ''sales_data.csv'' fresh) \<noteq> Inr (PBool False)"
  by (simp add: file_exists_def call_def outcome_def unreachable_def fresh_def)

text \<open>
  Claim C8. \<open>upload\<close> and \<open>download\<close> handle no exception: when the transfer call raises, the
  caller of \<open>upload file_path object_name\<close>, and of \<open>download object_name save_path\<close>, receives
  that same exception, and nothing is printed.
\<close>

theorem upload_download_propagate:
  "(outcome cap st (UploadFile file_path (bucket (self st)) object_name) = Inl e
      \<longrightarrow> fst (upload con cap file_path object_name st) = Inl e
        \<and> stdout (snd (upload con cap file_path object_name st)) = stdout st)
   \<and> (outcome cap st (DownloadFile (bucket (self st)) object_name save_path) = Inl e'
      \<longrightarrow> fst (download con cap object_name save_path st) = Inl e'
        \<and> stdout (snd (download con cap object_name save_path st)) = stdout st)"
  by (simp add: upload_def download_def call_eq)

theorem upload_download_propagate_witness:
  "fst (upload utf8 (rejecting ''AccessDenied'') ''sales_data.csv'' ''sales_data.csv'' fresh)
     = Inl (ClientError (error_response ''AccessDenied''))
   \<and> stdout (snd (upload utf8 (rejecting ''AccessDenied'') ''sales_data.csv'' ''sales_data.csv''
                     fresh))
     = []
   \<and> fst (download utf8 unreachable ''sales_data.csv'' ''copy.csv'' fresh)
     = Inl (OtherException ''EndpointConnectionError'')
   \<and> stdout (snd (download utf8 unreachable ''sales_data.csv'' ''copy.csv'' fresh)) = []"
  using upload_download_propagate
          [where con = utf8 and cap = "rejecting ''AccessDenied''" and st = fresh
             and file_path = "''sales_data.csv''" and object_name = "''sales_data.csv''"
             and e = "ClientError (error_response ''AccessDenied'')"]
        upload_download_propagate
          [where con = utf8 and cap = unreachable and st = fresh
             and object_name = "''sales_data.csv''" and save_path = "''copy.csv''"
             and e' = "OtherException ''EndpointConnectionError''"]
  by (simp add: outcome_def rejecting_def unreachable_def fresh_def)




section \<open>Requests sent to the capability\<close>

text \<open>
  Claim C4. \<open>list_files\<close> issues exactly one request, a listing of the bucket, whatever the
  answer. When the response has no \<open>Contents\<close> entry the result is the empty list; when it has
  one, the result is the list of the keys of its entries, in their order.
\<close>

theorem list_files_single_page:
  "sent (snd (list_files cap st)) = sent st @ [ListObjectsV2 (bucket (self st))]
   \<and> (outcome cap st (ListObjectsV2 (bucket (self st))) = Inr response
      \<and> map_of response ''Contents'' = None
      \<longrightarrow> fst (list_files cap st) = Inr (PList []))
   \<and> (outcome cap st (ListObjectsV2 (bucket (self st))) = Inr response
      \<and> map_of response ''Contents'' = Some (PList contents)
      \<and> map (\<lambda>obj. field obj ''Key'') contents = map Some ks
      \<longrightarrow> fst (list_files cap st) = Inr (PList ks))"
proof -
  have one: "sent (snd (list_files cap st)) = sent st @ [ListObjectsV2 (bucket (self st))]"
    by (simp add: list_files_def call_eq getitem_def split: sum.splits option.splits)
  have none: "fst (list_files cap st) = Inr (PList [])"
    if "outcome cap st (ListObjectsV2 (bucket (self st))) = Inr response"
      and "map_of response ''Contents'' = None"
    using that by (simp add: list_files_def call_eq)
  have some: "fst (list_files cap st) = Inr (PList ks)"
    if "outcome cap st (ListObjectsV2 (bucket (self st))) = Inr response"
      and "map_of response ''Contents'' = Some (PList contents)"
      and "map (\<lambda>obj. field obj ''Key'') contents = map Some ks"
  proof -
    from that(3) have "keys_of contents = Inr ks"
      by (simp add: keys_of_iff)
    with that(1,2) show ?thesis
      by (simp add: list_files_def call_eq getitem_def)
  qed
  from one none some show ?thesis by blast
qed

theorem list_files_single_page_witness:
  "sent (snd (list_files truncating fresh)) = [ListObjectsV2 ''bucketmaks'']
   \<and> fst (list_files truncating fresh) = Inr (PList [PStr ''sales_data.csv'', PStr ''report.txt''])
   \<and> fst (list_files accepting fresh) = Inr (PList [])"
  using list_files_single_page
          [where cap = truncating and st = fresh and response = first_page
             and contents = "[PDict [(''Key'', PStr ''sales_data.csv''), (''Size'', PInt 120)],
                              PDict [(''Key'', PStr ''report.txt''), (''Size'', PInt 7)]]"
             and ks = "[PStr ''sales_data.csv'', PStr ''report.txt'']"]
        list_files_single_page [where cap = accepting and st = fresh and response = "[]"]
  by (simp add: outcome_def truncating_def first_page_def accepting_def fresh_def minio_def
        init_def)

text \<open>
  Claim C5. For every argument, \<open>set_bucket_lifecycle_policy\<close> issues one request: a lifecycle
  configuration for the bucket whose only entry is \<open>Rules\<close>, a list of exactly one rule, with
  status \<open>Enabled\<close>, a filter with the empty prefix, and an expiration of as many days as the
  argument says, or of 3 days when the argument is omitted.
\<close>

theorem set_bucket_lifecycle_policy_rule:
  "\<exists>rule. sent (snd (set_bucket_lifecycle_policy con cap arg st))
            = sent st @ [PutBucketLifecycleConfiguration (bucket (self st))
                           (PDict [(''Rules'', PList [rule])])]
     \<and> field rule ''Status'' = Some (PStr ''Enabled'')
     \<and> field rule ''Filter'' = Some (PDict [(''Prefix'', PStr [])])
     \<and> field rule ''Expiration''
         = Some (PDict [(''Days'', case arg of None \<Rightarrow> PInt 3 | Some v \<Rightarrow> v)])"
  by (simp add: set_bucket_lifecycle_policy_sent lifecycle_config_def)

text \<open>
  Claim C6. \<open>set_bucket_lifecycle_policy\<close> validates nothing: whatever value is passed, zero
  and negative integers included, the request is issued with that value as the number of
  days; and, on a standard output that takes every line, the result is \<open>True\<close> or \<open>False\<close> as
  the capability accepts or refuses the request.
\<close>

theorem set_bucket_lifecycle_policy_no_validation:
  "sent (snd (set_bucket_lifecycle_policy con cap (Some v) st))
     = sent st @ [PutBucketLifecycleConfiguration (bucket (self st)) (lifecycle_config v)]
   \<and> (\<exists>rule. field (lifecycle_config v) ''Rules'' = Some (PList [rule])
        \<and> at_path rule [''Expiration'', ''Days''] = Some v)
   \<and> ((\<forall>written line. con written line = None)
      \<longrightarrow> fst (set_bucket_lifecycle_policy con cap (Some v) st)
          = Inr (PBool (\<not> isl (outcome cap st
               (PutBucketLifecycleConfiguration (bucket (self st)) (lifecycle_config v))))))"
proof (intro conjI impI)
  show "sent (snd (set_bucket_lifecycle_policy con cap (Some v) st))
     = sent st @ [PutBucketLifecycleConfiguration (bucket (self st)) (lifecycle_config v)]"
    using set_bucket_lifecycle_policy_sent [of con cap "Some v" st] by simp
  show "\<exists>rule. field (lifecycle_config v) ''Rules'' = Some (PList [rule])
        \<and> at_path rule [''Expiration'', ''Days''] = Some v"
    by (simp add: lifecycle_config_def)
  assume all: "\<forall>written line. con written line = None"
  show "fst (set_bucket_lifecycle_policy con cap (Some v) st)
          = Inr (PBool (\<not> isl (outcome cap st
               (PutBucketLifecycleConfiguration (bucket (self st)) (lifecycle_config v)))))"
  proof (cases "outcome cap st
      (PutBucketLifecycleConfiguration (bucket (self st)) (lifecycle_config v))")
    case (Inl e)
    with all show ?thesis
      by (simp add: set_bucket_lifecycle_policy_def Let_def
            set_bucket_lifecycle_policy_try_raised set_bucket_lifecycle_policy_except_reported)
  next
    case (Inr r)
    with all show ?thesis
      by (simp add: set_bucket_lifecycle_policy_def Let_def
            set_bucket_lifecycle_policy_try_returned)
  qed
qed

theorem set_bucket_lifecycle_policy_no_validation_witness:
  "sent (snd (set_bucket_lifecycle_policy utf8 accepting (Some (PInt 0)) fresh))
     = [PutBucketLifecycleConfiguration ''bucketmaks'' (lifecycle_config (PInt 0))]
   \<and> at_path (lifecycle_config (PInt 0)) [''Rules''] \<noteq> at_path (lifecycle_config (PInt 3)) [''Rules'']
   \<and> fst (set_bucket_lifecycle_policy utf8 accepting (Some (PInt 0)) fresh) = Inr (PBool True)
   \<and> sent (snd (set_bucket_lifecycle_policy utf8 accepting (Some (PInt (- 5))) fresh))
     = [PutBucketLifecycleConfiguration ''bucketmaks'' (lifecycle_config (PInt (- 5)))]
   \<and> fst (set_bucket_lifecycle_policy utf8 accepting (Some (PInt (- 5))) fresh) = Inr (PBool True)"
  using set_bucket_lifecycle_policy_no_validation [of utf8 accepting "PInt 0" fresh]
        set_bucket_lifecycle_policy_no_validation [of utf8 accepting "PInt (- 5)" fresh]
  by (simp add: outcome_def utf8_def accepting_def fresh_def minio_def init_def
        lifecycle_config_def)

text \<open>
  Claim C7. \<open>set_bucket_policy\<close> has no argument and issues one request, whose policy is the
  serialisation of a document that depends on the bucket name only. The document has exactly
  three statements, all with effect \<open>Allow\<close>: \<open>s3:GetObject\<close> on every object of the bucket for
  the principal \<open>*\<close>; \<open>s3:*\<close> on the bucket and its objects for \<open>user_m\<close>; \<open>s3:GetObject\<close> and
  \<open>s3:ListBucket\<close> on the bucket and its objects for \<open>user_b\<close>. An exception raised by the call
  reaches the caller unchanged.
\<close>

theorem set_bucket_policy_fixed_document:
  "sent (snd (set_bucket_policy dumps con cap st))
     = sent st @ [PutBucketPolicy (bucket (self st)) (dumps (policy (bucket (self st))))]
   \<and> (\<exists>s1 s2 s3. field (policy b) ''Statement'' = Some (PList [s1, s2, s3])
        \<and> field s1 ''Effect'' = Some (PStr ''Allow'')
        \<and> field s1 ''Principal'' = Some (PStr ''*'')
        \<and> field s1 ''Action'' = Some (PStr ''s3:GetObject'')
        \<and> field s1 ''Resource'' = Some (PStr (''arn:aws:s3:::'' @ b @ ''/*''))
        \<and> field s2 ''Effect'' = Some (PStr ''Allow'')
        \<and> field s2 ''Principal'' = Some (PDict [(''AWS'', PStr ''user_m'')])
        \<and> field s2 ''Action'' = Some (PStr ''s3:*'')
        \<and> field s2 ''Resource''
            = Some (PList [PStr (''arn:aws:s3:::'' @ b), PStr (''arn:aws:s3:::'' @ b @ ''/*'')])
        \<and> field s3 ''Effect'' = Some (PStr ''Allow'')
        \<and> field s3 ''Principal'' = Some (PDict [(''AWS'', PStr ''user_b'')])
        \<and> field s3 ''Action'' = Some (PList [PStr ''s3:GetObject'', PStr ''s3:ListBucket''])
        \<and> field s3 ''Resource''
            = Some (PList [PStr (''arn:aws:s3:::'' @ b), PStr (''arn:aws:s3:::'' @ b @ ''/*'')]))
   \<and> (outcome cap st (PutBucketPolicy (bucket (self st)) (dumps (policy (bucket (self st)))))
        = Inl e
      \<longrightarrow> fst (set_bucket_policy dumps con cap st) = Inl e
        \<and> stdout (snd (set_bucket_policy dumps con cap st)) = stdout st)"
proof -
  have request: "sent (snd (set_bucket_policy dumps con cap st))
      = sent st @ [PutBucketPolicy (bucket (self st)) (dumps (policy (bucket (self st))))]"
    by (simp add: set_bucket_policy_def call_eq py_print_def split: sum.splits option.splits)
  have document: "\<exists>s1 s2 s3. field (policy b) ''Statement'' = Some (PList [s1, s2, s3])
        \<and> field s1 ''Effect'' = Some (PStr ''Allow'')
        \<and> field s1 ''Principal'' = Some (PStr ''*'')
        \<and> field s1 ''Action'' = Some (PStr ''s3:GetObject'')
        \<and> field s1 ''Resource'' = Some (PStr (''arn:aws:s3:::'' @ b @ ''/*''))
        \<and> field s2 ''Effect'' = Some (PStr ''Allow'')
        \<and> field s2 ''Principal'' = Some (PDict [(''AWS'', PStr ''user_m'')])
        \<and> field s2 ''Action'' = Some (PStr ''s3:*'')
        \<and> field s2 ''Resource''
            = Some (PList [PStr (''arn:aws:s3:::'' @ b), PStr (''arn:aws:s3:::'' @ b @ ''/*'')])
        \<and> field s3 ''Effect'' = Some (PStr ''Allow'')
        \<and> field s3 ''Principal'' = Some (PDict [(''AWS'', PStr ''user_b'')])
        \<and> field s3 ''Action'' = Some (PList [PStr ''s3:GetObject'', PStr ''s3:ListBucket''])
        \<and> field s3 ''Resource''
            = Some (PList [PStr (''arn:aws:s3:::'' @ b), PStr (''arn:aws:s3:::'' @ b @ ''/*'')])"
    by (simp add: policy_def)
  have raised: "fst (set_bucket_policy dumps con cap st) = Inl e
        \<and> stdout (snd (set_bucket_policy dumps con cap st)) = stdout st"
    if "outcome cap st (PutBucketPolicy (bucket (self st)) (dumps (policy (bucket (self st)))))
        = Inl e"
    using that by (simp add: set_bucket_policy_def call_eq)
  from request document raised show ?thesis by blast
qed

theorem set_bucket_policy_fixed_document_witness:
  "sent (snd (set_bucket_policy stub_dumps utf8 (rejecting ''AccessDenied'') fresh))
     = [PutBucketPolicy ''bucketmaks'' ''2012-10-17'']
   \<and> fst (set_bucket_policy stub_dumps utf8 (rejecting ''AccessDenied'') fresh)
     = Inl (ClientError (error_response ''AccessDenied''))
   \<and> stdout (snd (set_bucket_policy stub_dumps utf8 (rejecting ''AccessDenied'') fresh)) = []"
  using set_bucket_policy_fixed_document
          [where dumps = stub_dumps and con = utf8 and cap = "rejecting ''AccessDenied''"
             and st = fresh and e = "ClientError (error_response ''AccessDenied'')"]
  by (simp add: outcome_def rejecting_def fresh_def minio_def init_def policy_def stub_dumps_def)

section \<open>The instance\<close>

lemma enable_bucket_versioning_try_self:
  "self (snd (enable_bucket_versioning_try con cap st)) = self st"
  by (simp add: enable_bucket_versioning_try_def call_eq py_print_def
        split: sum.splits option.splits)

lemma enable_bucket_versioning_except_self:
  "self (snd (enable_bucket_versioning_except con eresp st)) = self st"
  by (simp add: enable_bucket_versioning_except_def py_print_def
        split: sum.splits option.splits)

lemma enable_bucket_versioning_self:
  "self (snd (enable_bucket_versioning con cap st)) = self st"
proof -
  obtain r st1 where body: "enable_bucket_versioning_try con cap st = (r, st1)"
    by (cases "enable_bucket_versioning_try con cap st")
  with enable_bucket_versioning_try_self [of con cap st] have st1: "self st1 = self st"
    by simp
  show ?thesis
  proof (cases r)
    case (Inr v)
    with body st1 show ?thesis
      by (simp add: enable_bucket_versioning_def)
  next
    case (Inl e)
    with body st1 show ?thesis
      by (cases e)
         (simp_all add: enable_bucket_versioning_def enable_bucket_versioning_except_self)
  qed
qed

lemma set_bucket_lifecycle_policy_try_self:
  "self (snd (set_bucket_lifecycle_policy_try con cap d st)) = self st"
  by (simp add: set_bucket_lifecycle_policy_try_def call_eq py_print_def
        split: sum.splits option.splits)

lemma set_bucket_lifecycle_policy_except_self:
  "self (snd (set_bucket_lifecycle_policy_except con e st)) = self st"
  by (simp add: set_bucket_lifecycle_policy_except_def py_print_def
        split: sum.splits option.splits)

lemma set_bucket_lifecycle_policy_self:
  "self (snd (set_bucket_lifecycle_policy con cap arg st)) = self st"
proof -
  let ?d = "case arg of None \<Rightarrow> PInt 3 | Some v \<Rightarrow> v"
  obtain r st1 where body: "set_bucket_lifecycle_policy_try con cap ?d st = (r, st1)"
    by (cases "set_bucket_lifecycle_policy_try con cap ?d st")
  with set_bucket_lifecycle_policy_try_self [of con cap ?d st] have st1: "self st1 = self st"
    by simp
  from body st1 show ?thesis
    by (cases r)
       (simp_all add: set_bucket_lifecycle_policy_def Let_def
          set_bucket_lifecycle_policy_except_self)
qed

lemma set_bucket_policy_self: "self (snd (set_bucket_policy dumps con cap st)) = self st"
  by (simp add: set_bucket_policy_def call_eq py_print_def split: sum.splits option.splits)

lemma upload_self: "self (snd (upload con cap file_path object_name st)) = self st"
  by (simp add: upload_def call_eq py_print_def split: sum.splits option.splits)

lemma download_self: "self (snd (download con cap object_name save_path st)) = self st"
  by (simp add: download_def call_eq py_print_def split: sum.splits option.splits)

lemma list_files_self: "self (snd (list_files cap st)) = self st"
  by (simp add: list_files_def call_eq split: sum.splits)

lemma file_exists_self: "self (snd (file_exists cap object_name st)) = self st"
  by (simp add: file_exists_def call_eq split: sum.splits exn.splits)

lemma invoke_self: "self (snd (invoke dumps con cap m st)) = self st"
  by (cases m)
     (simp_all add: set_bucket_policy_self enable_bucket_versioning_self
        set_bucket_lifecycle_policy_self upload_self download_self list_files_self
        file_exists_self)

text \<open>
  Claim C9. The instance holds the bucket name and the client and nothing else. Every method,
  whatever it returns or raises, leaves the instance as it was, and so does every sequence of
  method calls; the result of a listing, the policy and the transferred content are stored
  nowhere in it.
\<close>

theorem instance_unchanged:
  "self (snd (invoke dumps con cap m st)) = self st
   \<and> self (invoke_all dumps con cap ms st) = self st"
proof
  show "self (snd (invoke dumps con cap m st)) = self st"
    by (rule invoke_self)
  show "self (invoke_all dumps con cap ms st) = self st"
    by (induction ms arbitrary: st) (simp_all add: invoke_self)
qed

end
